theory Spec2Isabelle
  imports Complex_Main
begin

section \<open>Multi-agent highway environments: observations, rewards, actions\<close>

text \<open>
  A shallow embedding of \<^verbatim>\<open>flow/envs/multiagent/highway.py\<close>.

  Conventions of the model.
  \<^item> Vehicle, edge and agent identifiers are strings. A leader or follower query yields
    \<open>None\<close> (Python's \<^verbatim>\<open>None\<close>) or \<open>Some s\<close>, where \<open>s\<close> may be the empty string.
  \<^item> Speeds, positions, headways and lengths are Python floats in the source; here they
    are real numbers, so rounding, infinities and NaN are outside the model.
  \<^item> The simulator kernel (\<^verbatim>\<open>self.k.vehicle\<close>, \<^verbatim>\<open>self.k.network\<close>) is external: each of
    its queries is a field of a record, read but never written by the code below. The
    readings are taken to be Python numbers, so a division by a zero reading raises
    \<^verbatim>\<open>ZeroDivisionError\<close>.
  \<^item> Every \<^verbatim>\<open>raise\<close> is a value \<open>Inl e\<close> of the result type \<open>error + 'a\<close>.
\<close>

subsection \<open>Errors\<close>

datatype error =
    KeyError string
  | ZeroDivisionError
  | IndexError
  | RecursionError
  | NonFinite

text \<open>
  \<open>NonFinite\<close> is not a Python exception: it stands for a numpy division by zero, which
  yields \<^verbatim>\<open>inf\<close> or \<^verbatim>\<open>nan\<close> with a warning and so has no real value.
\<close>

definition bind_err :: "error + 'a \<Rightarrow> ('a \<Rightarrow> error + 'b) \<Rightarrow> error + 'b" where
  "bind_err r f = (case r of Inl e \<Rightarrow> Inl e | Inr x \<Rightarrow> f x)"

definition py_div :: "real \<Rightarrow> real \<Rightarrow> error + real" where
  "py_div a b = (if b = 0 then Inl ZeroDivisionError else Inr (a / b))"

definition dict_get :: "(string \<rightharpoonup> 'v) \<Rightarrow> string \<Rightarrow> error + 'v" where
  "dict_get d key = (case d key of None \<Rightarrow> Inl (KeyError key) | Some v \<Rightarrow> Inr v)"

subsection \<open>The simulator kernel and the environment\<close>

record vehicle_kernel =
  get_rl_ids :: "string list"
  get_speed :: "string \<Rightarrow> real"
  get_leader :: "string \<Rightarrow> string option"
  get_follower :: "string \<Rightarrow> string option"
  get_headway :: "string \<Rightarrow> real"
  get_ids_by_edge :: "string \<Rightarrow> string list"
  get_lane :: "string \<Rightarrow> int"
  get_position :: "string \<Rightarrow> real"
  get_edge :: "string \<Rightarrow> string"
  get_x_by_id :: "string \<Rightarrow> real"

record network_kernel =
  max_speed :: real
  length_net :: real
  edge_length :: "string \<Rightarrow> real"
  speed_limit :: "string \<Rightarrow> real"
  prev_edge :: "string \<Rightarrow> int \<Rightarrow> (string \<times> int) list"
  get_junction_list :: "string list"
  total_edgestarts_dict :: "string \<rightharpoonup> real"

text \<open>
  \<open>length_net\<close> is \<^verbatim>\<open>self.k.network.length()\<close>. The two reward helpers imported from
  \<^verbatim>\<open>flow.core.rewards\<close> are parameters of the environment: \<open>desired_velocity env f\<close> is
  \<^verbatim>\<open>desired_velocity(self, fail=f)\<close> and \<open>average_velocity env\<close> is
  \<^verbatim>\<open>average_velocity(self)\<close>.
\<close>

record env =
  vehicle :: vehicle_kernel
  network :: network_kernel
  evaluate :: bool
  desired_velocity :: "bool \<Rightarrow> real"
  average_velocity :: real

type_synonym rl_actions = "(string \<times> real list) list option"

text \<open>
  The action argument is \<^verbatim>\<open>None\<close> or a dict from agent ids to action vectors, kept as
  the list of its items. The keyword arguments of \<^verbatim>\<open>compute_reward\<close> are reduced to the
  one key the code reads: \<open>None\<close> when \<^verbatim>\<open>'fail'\<close> was not passed, \<open>Some b\<close> otherwise.
\<close>

type_synonym kwargs = "bool option"

subsection \<open>The per-agent loop\<close>

text \<open>
  Every loop of the form
  \<^verbatim>\<open>for rl_id in self.k.vehicle.get_rl_ids(): d[rl_id] = body(rl_id)\<close>
  is an instance of \<open>for_each_agent\<close>; the first body that raises ends the loop.
\<close>

fun for_each_agent ::
  "(string \<Rightarrow> error + 'a) \<Rightarrow> string list \<Rightarrow> (string \<rightharpoonup> 'a) \<Rightarrow> error + (string \<rightharpoonup> 'a)" where
  "for_each_agent body [] d = Inr d"
| "for_each_agent body (rl_id # rest) d =
     bind_err (body rl_id) (\<lambda>v. for_each_agent body rest (d(rl_id \<mapsto> v)))"

subsection \<open>Construction: \<^verbatim>\<open>MultiAgentHighwayPOEnv.__init__\<close>\<close>

definition ADDITIONAL_ENV_PARAMS :: "(string \<times> real) list" where
  "ADDITIONAL_ENV_PARAMS =
     [(''max_accel'', 1), (''max_decel'', 1), (''target_velocity'', 25)]"

definition not_supplied :: "string \<Rightarrow> string" where
  "not_supplied p = ''Environment parameter '' @ [CHR 0x22] @ p @ [CHR 0x22] @ '' not supplied''"

fun check_params :: "string list \<Rightarrow> (string \<rightharpoonup> 'v) \<Rightarrow> error + unit" where
  "check_params [] additional_params = Inr ()"
| "check_params (p # ps) additional_params =
     (if additional_params p = None then Inl (KeyError (not_supplied p))
      else check_params ps additional_params)"

text \<open>
  \<open>super_init\<close> is the outcome of the parent constructor \<^verbatim>\<open>MultiEnv.__init__\<close>, which
  runs only after the check has passed.
\<close>

definition init :: "(string \<rightharpoonup> 'v) \<Rightarrow> error + 'e \<Rightarrow> error + 'e" where
  "init additional_params super_init =
     bind_err (check_params (map fst ADDITIONAL_ENV_PARAMS) additional_params)
       (\<lambda>_. super_init)"

subsection \<open>Action dispatcher: \<^verbatim>\<open>_apply_rl_actions\<close>\<close>

text \<open>
  The state is the list of acceleration commands sent to the simulator so far. The
  result pairs the new list with the exception that ended the call, if any:
  \<^verbatim>\<open>actions[0]\<close> raises \<^verbatim>\<open>IndexError\<close> on an empty action vector, after the commands of
  the earlier agents have been sent.
\<close>

type_synonym commands = "(string \<times> real) list"

fun apply_loop :: "(string \<times> real list) list \<Rightarrow> commands \<Rightarrow> commands \<times> error option" where
  "apply_loop [] sent = (sent, None)"
| "apply_loop ((rl_id, actions) # rest) sent =
     (case actions of
        [] \<Rightarrow> (sent, Some IndexError)
      | accel # _ \<Rightarrow> apply_loop rest (sent @ [(rl_id, accel)]))"

definition truthy :: "rl_actions \<Rightarrow> bool" where
  "truthy a = (case a of None \<Rightarrow> False | Some items \<Rightarrow> items \<noteq> [])"

definition apply_rl_actions :: "rl_actions \<Rightarrow> commands \<Rightarrow> commands \<times> error option" where
  "apply_rl_actions a sent =
     (if truthy a then apply_loop (the a) sent else (sent, None))"

subsection \<open>Observation encoder: \<^verbatim>\<open>MultiAgentHighwayPOEnv.get_state\<close>\<close>

definition not_visible :: "string option \<Rightarrow> bool" where
  "not_visible x = (x \<in> set [Some '''', None])"

definition observation :: "env \<Rightarrow> real \<Rightarrow> real \<Rightarrow> string \<Rightarrow> error + real list" where
  "observation e max_speed' max_length rl_id =
     (let this_speed = get_speed (vehicle e) rl_id;
          lead_id = get_leader (vehicle e) rl_id;
          follower = get_follower (vehicle e) rl_id;
          (lead_speed, lead_head) =
            (if not_visible lead_id then (max_speed', max_length)
             else (get_speed (vehicle e) (the lead_id), get_headway (vehicle e) rl_id));
          (follow_speed, follow_head) =
            (if not_visible follower then (0, max_length)
             else (get_speed (vehicle e) (the follower),
                   get_headway (vehicle e) (the follower)))
      in bind_err (py_div this_speed max_speed') (\<lambda>o1.
         bind_err (py_div (lead_speed - this_speed) max_speed') (\<lambda>o2.
         bind_err (py_div lead_head max_length) (\<lambda>o3.
         bind_err (py_div (this_speed - follow_speed) max_speed') (\<lambda>o4.
         bind_err (py_div follow_head max_length) (\<lambda>o5.
         Inr [o1, o2, o3, o4, o5]))))))"

definition get_state :: "env \<Rightarrow> error + (string \<rightharpoonup> real list)" where
  "get_state e =
     (let max_speed' = max_speed (network e);
          max_length = length_net (network e)
      in for_each_agent (observation e max_speed' max_length)
           (get_rl_ids (vehicle e)) Map.empty)"

subsection \<open>Reward of the base variant: \<^verbatim>\<open>MultiAgentHighwayPOEnv.compute_reward\<close>\<close>

definition kwargs_fail :: "kwargs \<Rightarrow> error + bool" where
  "kwargs_fail kw = (case kw of None \<Rightarrow> Inl (KeyError ''fail'') | Some b \<Rightarrow> Inr b)"

definition reward_agent :: "env \<Rightarrow> kwargs \<Rightarrow> string \<Rightarrow> error + real" where
  "reward_agent e kw rl_id =
     (if evaluate e then Inr (get_speed (vehicle e) rl_id)
      else bind_err (kwargs_fail kw) (\<lambda>fail.
        if fail then Inr 0
        else
          (let cost1 = desired_velocity e fail;
               t_min = 1;
               lead_id = get_leader (vehicle e) rl_id;
               cost2 =
                 (if \<not> not_visible lead_id \<and> get_speed (vehicle e) rl_id > 0
                  then
                    (let t_headway =
                           max (get_headway (vehicle e) rl_id / get_speed (vehicle e) rl_id) 0
                     in 0 + min ((t_headway - t_min) / t_min) 0)
                  else 0);
               eta1 = 1;
               eta2 = 0
           in Inr (max (eta1 * cost1 + eta2 * cost2) 0))))"

definition compute_reward :: "env \<Rightarrow> rl_actions \<Rightarrow> kwargs \<Rightarrow> error + (string \<rightharpoonup> real)" where
  "compute_reward e a kw =
     (if a = None then Inr Map.empty
      else for_each_agent (reward_agent e kw) (get_rl_ids (vehicle e)) Map.empty)"

subsection \<open>Local-neighbourhood average: \<^verbatim>\<open>MultiAgentHighwayPOEnvLocalReward\<close>\<close>

definition veh_edge_lane :: "env \<Rightarrow> string \<Rightarrow> int \<Rightarrow> string list" where
  "veh_edge_lane e edge lane =
     filter (\<lambda>veh. get_lane (vehicle e) veh = lane) (get_ids_by_edge (vehicle e) edge)"

text \<open>
  \<^verbatim>\<open>_veh_edge_lane_backward_pass\<close> calls itself for every predecessor edge that is a
  junction, with nothing to stop it on a cyclic topology; Python ends such a run with
  \<^verbatim>\<open>RecursionError\<close> once the interpreter's stack is used up. The first argument is the
  number of calls the stack still has room for.
\<close>

fun veh_edge_lane_backward_pass ::
      "nat \<Rightarrow> env \<Rightarrow> string \<Rightarrow> int \<Rightarrow> string set \<Rightarrow> error + string list"
  and backward_loop ::
      "nat \<Rightarrow> env \<Rightarrow> string set \<Rightarrow> (string \<times> int) list \<Rightarrow> string list \<Rightarrow> error + string list"
  where
  "veh_edge_lane_backward_pass 0 e edge lane junctions = Inl RecursionError"
| "veh_edge_lane_backward_pass (Suc depth) e edge lane junctions =
     backward_loop depth e junctions (prev_edge (network e) edge lane) []"
| "backward_loop depth e junctions [] veh = Inr veh"
| "backward_loop depth e junctions ((prev_edge', prev_lane) # rest) veh =
     (if prev_edge' \<in> junctions
      then bind_err (veh_edge_lane_backward_pass depth e prev_edge' prev_lane junctions)
             (\<lambda>more. backward_loop depth e junctions rest
                        (veh @ more @ veh_edge_lane e prev_edge' prev_lane))
      else backward_loop depth e junctions rest (veh @ veh_edge_lane e prev_edge' prev_lane))"

text \<open>
  \<^verbatim>\<open>_compute_avgspeed_agent\<close> returns the Python integer \<open>0\<close> on its three early exits
  and a numpy float otherwise; the two divide by zero differently.
\<close>

datatype number = PyInt int | NpFloat real

definition compute_avgspeed_agent :: "nat \<Rightarrow> env \<Rightarrow> string \<Rightarrow> kwargs \<Rightarrow> error + number" where
  "compute_avgspeed_agent depth e rl_id kw =
     bind_err (kwargs_fail kw) (\<lambda>fail.
       if fail then Inr (PyInt 0)
       else
         (let edge = get_edge (vehicle e) rl_id;
              lane = get_lane (vehicle e) rl_id;
              pos = get_position (vehicle e) edge;
              edge_veh = get_ids_by_edge (vehicle e) edge;
              junctions = set (get_junction_list (network e));
              neighbours =
                filter (\<lambda>veh. get_lane (vehicle e) veh = lane \<and>
                               get_position (vehicle e) veh \<le> pos) edge_veh
          in bind_err (veh_edge_lane_backward_pass depth e edge lane junctions) (\<lambda>more.
               (let neighbours = neighbours @ more
                in if length neighbours = 0 then Inr (PyInt 0)
                   else
                     (let vel = map (get_speed (vehicle e)) neighbours
                      in if \<exists>v \<in> set vel. v < - 100 then Inr (PyInt 0)
                         else Inr (NpFloat (sum_list vel / real (length vel))))))))"

definition div_number :: "number \<Rightarrow> real \<Rightarrow> error + real" where
  "div_number reward d =
     (case reward of
        PyInt i \<Rightarrow> py_div (real_of_int i) d
      | NpFloat r \<Rightarrow> (if d = 0 then Inl NonFinite else Inr (r / d)))"

definition compute_avgspeednormalized_agent ::
  "nat \<Rightarrow> env \<Rightarrow> kwargs \<Rightarrow> string \<Rightarrow> error + real" where
  "compute_avgspeednormalized_agent depth e kw rl_id =
     bind_err (compute_avgspeed_agent depth e rl_id kw) (\<lambda>reward.
       div_number reward (speed_limit (network e) (get_edge (vehicle e) rl_id)))"

definition compute_reward_local ::
  "nat \<Rightarrow> env \<Rightarrow> rl_actions \<Rightarrow> kwargs \<Rightarrow> error + (string \<rightharpoonup> real)" where
  "compute_reward_local depth e a kw =
     (if a = None then Inr Map.empty
      else for_each_agent (compute_avgspeednormalized_agent depth e kw)
             (get_rl_ids (vehicle e)) Map.empty)"

subsection \<open>Merge-aware encoder: \<^verbatim>\<open>MultiAgentHighwayPOEnvDistanceMergeInfo.get_state\<close>\<close>

definition clip :: "real \<Rightarrow> real \<Rightarrow> real \<Rightarrow> real" where
  "clip x lo hi = min (max x lo) hi"

fun max_list :: "real list \<Rightarrow> real" where
  "max_list [] = 0"
| "max_list (x # xs) = fold max xs x"

text \<open>
  \<open>max_list\<close> is Python's \<^verbatim>\<open>max\<close>; the code calls it on a non-empty list only. The
  start of edge \<open>bottom\<close> is looked up and then overwritten or dropped; the length of the
  agent's edge is queried in the loop and never used, and is left out below.
\<close>

definition merge_distance :: "env \<Rightarrow> error + real" where
  "merge_distance e =
     (let merge_vehs = get_ids_by_edge (vehicle e) ''bottom'';
          merge_dists = map (get_position (vehicle e)) merge_vehs;
          len_bottom = edge_length (network e) ''bottom''
      in bind_err (dict_get (total_edgestarts_dict (network e)) ''bottom'') (\<lambda>position.
           if length merge_dists > 0
           then (let position = max_list merge_dists
                 in py_div (len_bottom - position) len_bottom)
           else Inr 1))"

definition observation_merge ::
  "env \<Rightarrow> real \<Rightarrow> real \<Rightarrow> real \<Rightarrow> string \<Rightarrow> error + real list" where
  "observation_merge e max_speed' max_length merge_distance' rl_id =
     (let this_speed = get_speed (vehicle e) rl_id;
          lead_id = get_leader (vehicle e) rl_id;
          follower = get_follower (vehicle e) rl_id;
          (lead_speed, lead_head) =
            (if not_visible lead_id then (max_speed', max_length)
             else (get_speed (vehicle e) (the lead_id), get_headway (vehicle e) rl_id));
          (follow_speed, follow_head) =
            (if not_visible follower then (0, max_length)
             else (get_speed (vehicle e) (the follower),
                   get_headway (vehicle e) (the follower)));
          veh_x = get_x_by_id (vehicle e) rl_id;
          edge = get_edge (vehicle e) rl_id
      in bind_err (dict_get (total_edgestarts_dict (network e)) ''center'') (\<lambda>center_x.
         bind_err (if edge \<in> set [''inflow_highway'', ''left'', ''center'']
                   then py_div (veh_x - center_x) center_x else Inr 1) (\<lambda>distance.
         bind_err (py_div this_speed max_speed') (\<lambda>o1.
         bind_err (py_div (lead_speed - this_speed) max_speed') (\<lambda>o2.
         bind_err (py_div lead_head max_length) (\<lambda>o3.
         bind_err (py_div (this_speed - follow_speed) max_speed') (\<lambda>o4.
         bind_err (py_div follow_head max_length) (\<lambda>o5.
         Inr [o1, o2, o3, o4, o5, clip distance (- 1) 1, clip merge_distance' (- 1) 1]))))))))"

definition get_state_merge :: "env \<Rightarrow> error + (string \<rightharpoonup> real list)" where
  "get_state_merge e =
     (let max_speed' = max_speed (network e);
          max_length = length_net (network e)
      in bind_err (merge_distance e) (\<lambda>merge_distance'.
           for_each_agent (observation_merge e max_speed' max_length merge_distance')
             (get_rl_ids (vehicle e)) Map.empty))"

subsection \<open>Constant and shared rewards\<close>

text \<open>
  The four classes below define \<^verbatim>\<open>compute_reward\<close> separately in the source, two by
  two with the same text; none of them reads its keyword arguments.
\<close>

definition compute_reward_negative ::
  "env \<Rightarrow> rl_actions \<Rightarrow> kwargs \<Rightarrow> error + (string \<rightharpoonup> real)" where
  "compute_reward_negative e a kw =
     (if a = None then Inr Map.empty
      else for_each_agent (\<lambda>rl_id. Inr (- (1 / 10))) (get_rl_ids (vehicle e)) Map.empty)"

definition compute_reward_collaborate ::
  "env \<Rightarrow> rl_actions \<Rightarrow> kwargs \<Rightarrow> error + (string \<rightharpoonup> real)" where
  "compute_reward_collaborate e a kw =
     (if a = None then Inr Map.empty
      else
        (let eta1 = 1 / 2;
             eta2 = 1 / 2;
             reward1 = - 1;
             reward2 = average_velocity e / 30;
             reward = reward1 * eta1 + reward2 * eta2
         in for_each_agent (\<lambda>rl_id. Inr reward) (get_rl_ids (vehicle e)) Map.empty))"

definition compute_reward_merge_negative ::
  "env \<Rightarrow> rl_actions \<Rightarrow> kwargs \<Rightarrow> error + (string \<rightharpoonup> real)" where
  "compute_reward_merge_negative e a kw =
     (if a = None then Inr Map.empty
      else for_each_agent (\<lambda>rl_id. Inr (- (1 / 10))) (get_rl_ids (vehicle e)) Map.empty)"

definition compute_reward_merge_collaborate ::
  "env \<Rightarrow> rl_actions \<Rightarrow> kwargs \<Rightarrow> error + (string \<rightharpoonup> real)" where
  "compute_reward_merge_collaborate e a kw =
     (if a = None then Inr Map.empty
      else
        (let eta1 = 1 / 2;
             eta2 = 1 / 2;
             reward1 = - 1;
             reward2 = average_velocity e / 30;
             reward = reward1 * eta1 + reward2 * eta2
         in for_each_agent (\<lambda>rl_id. Inr reward) (get_rl_ids (vehicle e)) Map.empty))"

subsection \<open>The observation as the specification words it\<close>

text \<open>
  The leader's speed and headway, with the values substituted when no leader is visible;
  the same for the follower; and the five features built from them. The headway of the
  follower is the gap from the follower to the agent.
\<close>

definition spec_lead :: "env \<Rightarrow> string \<Rightarrow> real \<times> real" where
  "spec_lead e rl_id =
     (case get_leader (vehicle e) rl_id of
        None \<Rightarrow> (max_speed (network e), length_net (network e))
      | Some l \<Rightarrow>
          if l = '''' then (max_speed (network e), length_net (network e))
          else (get_speed (vehicle e) l, get_headway (vehicle e) rl_id))"

definition spec_follow :: "env \<Rightarrow> string \<Rightarrow> real \<times> real" where
  "spec_follow e rl_id =
     (case get_follower (vehicle e) rl_id of
        None \<Rightarrow> (0, length_net (network e))
      | Some f \<Rightarrow>
          if f = '''' then (0, length_net (network e))
          else (get_speed (vehicle e) f, get_headway (vehicle e) f))"

definition spec_base_features :: "env \<Rightarrow> string \<Rightarrow> real list" where
  "spec_base_features e rl_id =
     (let v = get_speed (vehicle e) rl_id;
          ms = max_speed (network e);
          ml = length_net (network e);
          (lead_speed, lead_headway) = spec_lead e rl_id;
          (follow_speed, follow_headway) = spec_follow e rl_id
      in [v / ms, (lead_speed - v) / ms, lead_headway / ml,
          (v - follow_speed) / ms, follow_headway / ml])"

definition all_within :: "real \<Rightarrow> real list \<Rightarrow> real list \<Rightarrow> bool" where
  "all_within tol xs ys = list_all2 (\<lambda>x y. \<bar>x - y\<bar> \<le> tol) xs ys"

subsection \<open>A concrete step\<close>

text \<open>
  Agent \<open>A\<close> drives at speed 10 on lane 0 of edge \<open>left\<close>, 5 behind vehicle \<open>B\<close> whose
  speed is 15; nobody follows \<open>A\<close>. The network has maximal speed 30 and length 100: edge
  \<open>left\<close> of length 60, then \<open>center\<close> and \<open>bottom\<close> of length 20 each. A query about an
  unknown vehicle or edge yields the simulator's error value \<open>-1001\<close>.
\<close>

definition scenario_vehicle :: vehicle_kernel where
  "scenario_vehicle =
     \<lparr>get_rl_ids = [''A''],
      get_speed = (\<lambda>v. if v = ''A'' then 10 else if v = ''B'' then 15 else - 1001),
      get_leader = (\<lambda>v. if v = ''A'' then Some ''B'' else None),
      get_follower = (\<lambda>v. if v = ''B'' then Some ''A'' else None),
      get_headway = (\<lambda>v. if v = ''A'' then 5 else 1000),
      get_ids_by_edge = (\<lambda>ed. if ed = ''left'' then [''A'', ''B''] else []),
      get_lane = (\<lambda>v. 0),
      get_position = (\<lambda>v. if v = ''A'' then 50 else if v = ''B'' then 55 else - 1001),
      get_edge = (\<lambda>v. ''left''),
      get_x_by_id = (\<lambda>v. if v = ''A'' then 50 else if v = ''B'' then 55 else - 1001)\<rparr>"

definition scenario_network :: network_kernel where
  "scenario_network =
     \<lparr>max_speed = 30,
      length_net = 100,
      edge_length =
        (\<lambda>ed. if ed = ''left'' then 60 else if ed = ''center'' then 20
              else if ed = ''bottom'' then 20 else - 1001),
      speed_limit = (\<lambda>ed. 30),
      prev_edge = (\<lambda>ed lane. []),
      get_junction_list = [],
      total_edgestarts_dict = [''left'' \<mapsto> 0, ''center'' \<mapsto> 60, ''bottom'' \<mapsto> 80]\<rparr>"

definition scenario_env :: env where
  "scenario_env =
     \<lparr>vehicle = scenario_vehicle, network = scenario_network, evaluate = False,
      desired_velocity = (\<lambda>fail. if fail then 0 else 2 / 5), average_velocity = 25 / 2\<rparr>"

subsection \<open>The local reward as the specification words it\<close>

text \<open>
  The vehicles of the agent's edge that share its lane and are at or behind the agent's
  own position; and the reward built from them and from the vehicles found upstream,
  when the failure flag is not set.
\<close>

definition spec_behind_or_at :: "env \<Rightarrow> string \<Rightarrow> string list" where
  "spec_behind_or_at e rl_id =
     filter (\<lambda>veh. get_lane (vehicle e) veh = get_lane (vehicle e) rl_id \<and>
                    get_position (vehicle e) veh \<le> get_position (vehicle e) rl_id)
       (get_ids_by_edge (vehicle e) (get_edge (vehicle e) rl_id))"

definition spec_local_reward :: "nat \<Rightarrow> env \<Rightarrow> string \<Rightarrow> error + real" where
  "spec_local_reward depth e rl_id =
     bind_err (veh_edge_lane_backward_pass depth e (get_edge (vehicle e) rl_id)
                 (get_lane (vehicle e) rl_id) (set (get_junction_list (network e))))
       (\<lambda>upstream.
          (let neighbours = spec_behind_or_at e rl_id @ upstream;
               vel = map (get_speed (vehicle e)) neighbours
           in if neighbours = [] \<or> (\<exists>v \<in> set vel. v < - 100) then Inr 0
              else py_div (sum_list vel / real (length vel))
                     (speed_limit (network e) (get_edge (vehicle e) rl_id))))"

subsection \<open>The declared observation box and nominal telemetry\<close>

text \<open>
  \<open>observation_space_merge\<close> is the \<^verbatim>\<open>Box(low=-1, high=1, shape=(7, ))\<close> that the
  merge-aware variant declares, as its lower bound, upper bound and length; \<open>in_box\<close>
  says that a component respects the bounds. Telemetry is nominal for an agent when the
  network constants are positive, the speeds read for the agent and its neighbours lie
  between zero and the maximal speed, and the headways between zero and the network's
  length.
\<close>

definition observation_space_merge :: "real \<times> real \<times> nat" where
  "observation_space_merge = (- 1, 1, 7)"

definition in_box :: "real \<Rightarrow> bool" where
  "in_box x = (case observation_space_merge of (low, high, shape) \<Rightarrow> low \<le> x \<and> x \<le> high)"

definition nominal :: "env \<Rightarrow> string \<Rightarrow> bool" where
  "nominal e rl_id =
     (let ms = max_speed (network e);
          ml = length_net (network e);
          v = get_speed (vehicle e) rl_id;
          (lead_speed, lead_headway) = spec_lead e rl_id;
          (follow_speed, follow_headway) = spec_follow e rl_id
      in 0 < ms \<and> 0 < ml \<and> 0 \<le> v \<and> v \<le> ms \<and>
         0 \<le> lead_speed \<and> lead_speed \<le> ms \<and> 0 \<le> lead_headway \<and> lead_headway \<le> ml \<and>
         0 \<le> follow_speed \<and> follow_speed \<le> ms \<and>
         0 \<le> follow_headway \<and> follow_headway \<le> ml)"

subsection \<open>The network of the merge-aware variant\<close>

text \<open>
  The merge-aware encoder names the edge \<open>bottom\<close> in its code: it is written for a network
  whose table of edge starts has an entry for that edge and where the edge has a
  non-zero length.
\<close>

definition has_bottom_edge :: "env \<Rightarrow> bool" where
  "has_bottom_edge e =
     (total_edgestarts_dict (network e) ''bottom'' \<noteq> None \<and>
      edge_length (network e) ''bottom'' \<noteq> 0)"

subsection \<open>Further concrete steps\<close>

text \<open>
  \<open>lone_vehicle\<close>: agent \<open>A\<close> alone on the road. \<open>fast_env\<close>: the same agent driving at
  36 where the maximal speed of the network is 30. \<open>merge_env_idle\<close>: the merge network
  with no agent present and one human-driven vehicle \<open>H\<close> on edge \<open>bottom\<close>.
\<close>

definition lone_vehicle :: vehicle_kernel where
  "lone_vehicle =
     \<lparr>get_rl_ids = [''A''],
      get_speed = (\<lambda>v. if v = ''A'' then 10 else - 1001),
      get_leader = (\<lambda>v. None),
      get_follower = (\<lambda>v. None),
      get_headway = (\<lambda>v. 1000),
      get_ids_by_edge = (\<lambda>ed. if ed = ''left'' then [''A''] else []),
      get_lane = (\<lambda>v. 0),
      get_position = (\<lambda>v. if v = ''A'' then 50 else - 1001),
      get_edge = (\<lambda>v. ''left''),
      get_x_by_id = (\<lambda>v. if v = ''A'' then 50 else - 1001)\<rparr>"

definition lone_env :: env where
  "lone_env =
     \<lparr>vehicle = lone_vehicle, network = scenario_network, evaluate = False,
      desired_velocity = (\<lambda>fail. if fail then 0 else 2 / 5), average_velocity = 10\<rparr>"

definition fast_env :: env where
  "fast_env =
     \<lparr>vehicle = lone_vehicle\<lparr>get_speed := (\<lambda>v. if v = ''A'' then 36 else - 1001)\<rparr>,
      network = scenario_network, evaluate = False,
      desired_velocity = (\<lambda>fail. if fail then 0 else 2 / 5), average_velocity = 36\<rparr>"

definition no_agent_vehicle :: vehicle_kernel where
  "no_agent_vehicle =
     \<lparr>get_rl_ids = [],
      get_speed = (\<lambda>v. if v = ''H'' then 8 else - 1001),
      get_leader = (\<lambda>v. None),
      get_follower = (\<lambda>v. None),
      get_headway = (\<lambda>v. 1000),
      get_ids_by_edge = (\<lambda>ed. if ed = ''bottom'' then [''H''] else []),
      get_lane = (\<lambda>v. 0),
      get_position = (\<lambda>v. if v = ''H'' then 5 else - 1001),
      get_edge = (\<lambda>v. ''bottom''),
      get_x_by_id = (\<lambda>v. if v = ''H'' then 85 else - 1001)\<rparr>"

definition merge_env_idle :: env where
  "merge_env_idle =
     \<lparr>vehicle = no_agent_vehicle, network = scenario_network, evaluate = False,
      desired_velocity = (\<lambda>fail. if fail then 0 else 1 / 5), average_velocity = 8\<rparr>"

section \<open>Properties\<close>

lemma bind_err_simps [simp]:
  "bind_err (Inl e) f = Inl e"
  "bind_err (Inr x) f = f x"
  by (simp_all add: bind_err_def)

subsection \<open>The per-agent loop\<close>

lemma for_each_agent_lookup:
  "for_each_agent body ids d = Inr d' \<Longrightarrow>
   (x \<in> set ids \<longrightarrow> (\<exists>v. body x = Inr v \<and> d' x = Some v)) \<and>
   (x \<notin> set ids \<longrightarrow> d' x = d x)"
proof (induction ids arbitrary: d)
  case Nil
  then show ?case by simp
next
  case (Cons a rest)
  then obtain v where v: "body a = Inr v"
    and rest: "for_each_agent body rest (d(a \<mapsto> v)) = Inr d'"
    by (cases "body a") auto
  from Cons.IH [OF rest] v show ?case by auto
qed

lemma for_each_agent_dom:
  "for_each_agent body ids d = Inr d' \<Longrightarrow> dom d' = dom d \<union> set ids"
proof (rule set_eqI)
  fix x
  assume "for_each_agent body ids d = Inr d'"
  from for_each_agent_lookup [OF this, of x] show "x \<in> dom d' \<longleftrightarrow> x \<in> dom d \<union> set ids"
    by (cases "x \<in> set ids") (auto simp: dom_def)
qed

lemma for_each_agent_value:
  "(\<And>rl_id. rl_id \<in> set ids \<Longrightarrow> body rl_id = Inr (g rl_id)) \<Longrightarrow>
   for_each_agent body ids d =
     Inr (\<lambda>rl_id. if rl_id \<in> set ids then Some (g rl_id) else d rl_id)"
proof (induction ids arbitrary: d)
  case Nil
  then show ?case by simp
next
  case (Cons a rest)
  have "for_each_agent body rest (d(a \<mapsto> g a)) =
          Inr (\<lambda>rl_id. if rl_id \<in> set rest then Some (g rl_id) else (d(a \<mapsto> g a)) rl_id)"
    by (rule Cons.IH) (simp add: Cons.prems)
  moreover have "body a = Inr (g a)"
    by (simp add: Cons.prems)
  ultimately show ?case
    by auto
qed

lemma for_each_agent_raises:
  "ids \<noteq> [] \<Longrightarrow> (\<And>x. x \<in> set ids \<Longrightarrow> body x = Inl err) \<Longrightarrow>
   for_each_agent body ids d = Inl err"
  by (cases ids) auto

subsection \<open>The base observation\<close>

lemma not_visible_iff:
  "not_visible x \<longleftrightarrow> x = None \<or> x = Some ''''"
  by (auto simp: not_visible_def)

lemma observation_eq:
  "observation e (max_speed (network e)) (length_net (network e)) rl_id =
     (if max_speed (network e) = 0 \<or> length_net (network e) = 0 then Inl ZeroDivisionError
      else Inr (spec_base_features e rl_id))"
  by (cases "get_leader (vehicle e) rl_id"; cases "get_follower (vehicle e) rl_id")
     (simp_all add: observation_def spec_base_features_def spec_lead_def spec_follow_def
        not_visible_iff py_div_def Let_def)

lemma get_state_eq:
  "get_state e =
     (if get_rl_ids (vehicle e) \<noteq> [] \<and>
         (max_speed (network e) = 0 \<or> length_net (network e) = 0)
      then Inl ZeroDivisionError
      else Inr (\<lambda>rl_id. if rl_id \<in> set (get_rl_ids (vehicle e))
                         then Some (spec_base_features e rl_id) else None))"
proof (cases "get_rl_ids (vehicle e) \<noteq> [] \<and>
         (max_speed (network e) = 0 \<or> length_net (network e) = 0)")
  case True
  then have "for_each_agent (observation e (max_speed (network e)) (length_net (network e)))
          (get_rl_ids (vehicle e)) Map.empty = Inl ZeroDivisionError"
    by (intro for_each_agent_raises) (auto simp: observation_eq)
  with True show ?thesis by (simp add: get_state_def)
next
  case False
  show ?thesis
  proof (cases "get_rl_ids (vehicle e) = []")
    case True
    then show ?thesis by (simp add: get_state_def)
  next
    case ne: False
    with False have nz: "max_speed (network e) \<noteq> 0" "length_net (network e) \<noteq> 0" by auto
    have "for_each_agent (observation e (max_speed (network e)) (length_net (network e)))
          (get_rl_ids (vehicle e)) Map.empty =
        Inr (\<lambda>rl_id. if rl_id \<in> set (get_rl_ids (vehicle e))
                         then Some (spec_base_features e rl_id) else Map.empty rl_id)"
      by (rule for_each_agent_value) (simp add: observation_eq nz)
    with False show ?thesis by (simp add: get_state_def)
  qed
qed

text \<open>
  C1. Whenever the network's maximal speed and length are non-zero, the base
  \<^verbatim>\<open>get_state\<close> returns, and the vector of every agent present is the five features
  \<open>[v/max_speed, (lead_speed - v)/max_speed, lead_headway/max_length,
  (v - follow_speed)/max_speed, follow_headway/max_length]\<close>; the same holds of any
  mapping it returns. For an agent with speed 10, a leader at headway 5 with speed 15, no
  follower, maximal speed 30 and length 100 the vector is \<open>[10/30, 5/30, 5/100, 10/30, 1]\<close>,
  within \<open>1/1000\<close> of \<open>[0.333, 0.1667, 0.05, 0.333, 1.0]\<close>.
\<close>

theorem get_state_base_features:
  "(max_speed (network e) \<noteq> 0 \<and> length_net (network e) \<noteq> 0 \<longrightarrow>
      (\<exists>obs. get_state e = Inr obs \<and>
         (\<forall>rl_id \<in> set (get_rl_ids (vehicle e)). obs rl_id = Some (spec_base_features e rl_id)))) \<and>
   (get_state e = Inr obs' \<and> rl_id \<in> set (get_rl_ids (vehicle e)) \<longrightarrow>
      obs' rl_id = Some (spec_base_features e rl_id)) \<and>
   (a \<in> set (get_rl_ids (vehicle e)) \<and> get_speed (vehicle e) a = 10 \<and>
    get_leader (vehicle e) a = Some b \<and> b \<noteq> '''' \<and> get_headway (vehicle e) a = 5 \<and>
    get_speed (vehicle e) b = 15 \<and> not_visible (get_follower (vehicle e) a) \<and>
    max_speed (network e) = 30 \<and> length_net (network e) = 100 \<longrightarrow>
      (\<exists>obs. get_state e = Inr obs \<and> obs a = Some [10 / 30, 5 / 30, 5 / 100, 10 / 30, 1] \<and>
         all_within (1 / 1000) [10 / 30, 5 / 30, 5 / 100, 10 / 30, 1]
           [0.333, 0.1667, 0.05, 0.333, 1.0]))"
proof (intro conjI impI)
  assume "max_speed (network e) \<noteq> 0 \<and> length_net (network e) \<noteq> 0"
  then show "\<exists>obs. get_state e = Inr obs \<and>
         (\<forall>rl_id \<in> set (get_rl_ids (vehicle e)). obs rl_id = Some (spec_base_features e rl_id))"
    by (simp add: get_state_eq)
next
  assume "get_state e = Inr obs' \<and> rl_id \<in> set (get_rl_ids (vehicle e))"
  then show "obs' rl_id = Some (spec_base_features e rl_id)"
    by (auto simp: get_state_eq split: if_splits)
next
  assume s: "a \<in> set (get_rl_ids (vehicle e)) \<and> get_speed (vehicle e) a = 10 \<and>
    get_leader (vehicle e) a = Some b \<and> b \<noteq> '''' \<and> get_headway (vehicle e) a = 5 \<and>
    get_speed (vehicle e) b = 15 \<and> not_visible (get_follower (vehicle e) a) \<and>
    max_speed (network e) = 30 \<and> length_net (network e) = 100"
  then have "spec_base_features e a = [10 / 30, 5 / 30, 5 / 100, 10 / 30, 1]"
    by (auto simp: spec_base_features_def spec_lead_def spec_follow_def not_visible_iff)
  moreover have "all_within (1 / 1000) [10 / 30, 5 / 30, 5 / 100, 10 / 30, 1]
           [0.333, 0.1667, 0.05, 0.333, 1.0]"
    by (simp add: all_within_def)
  ultimately show "\<exists>obs. get_state e = Inr obs \<and> obs a = Some [10 / 30, 5 / 30, 5 / 100, 10 / 30, 1] \<and>
         all_within (1 / 1000) [10 / 30, 5 / 30, 5 / 100, 10 / 30, 1]
           [0.333, 0.1667, 0.05, 0.333, 1.0]"
    using s by (simp add: get_state_eq)
qed

theorem get_state_base_features_witness:
  "max_speed (network scenario_env) \<noteq> 0 \<and> length_net (network scenario_env) \<noteq> 0 \<and>
   ''A'' \<in> set (get_rl_ids (vehicle scenario_env)) \<and>
   get_speed (vehicle scenario_env) ''A'' = 10 \<and>
   get_leader (vehicle scenario_env) ''A'' = Some ''B'' \<and>
   get_headway (vehicle scenario_env) ''A'' = 5 \<and>
   get_speed (vehicle scenario_env) ''B'' = 15 \<and>
   not_visible (get_follower (vehicle scenario_env) ''A'') \<and>
   max_speed (network scenario_env) = 30 \<and> length_net (network scenario_env) = 100 \<and>
   get_state scenario_env = Inr [''A'' \<mapsto> [1 / 3, 1 / 6, 1 / 20, 1 / 3, 1]] \<and>
   spec_base_features scenario_env ''A'' = [1 / 3, 1 / 6, 1 / 20, 1 / 3, 1]"
  using get_state_base_features [of scenario_env "[''A'' \<mapsto> [1 / 3, 1 / 6, 1 / 20, 1 / 3, 1]]" "''A''" "''A''" "''B''"]
  by (simp add: scenario_env_def scenario_vehicle_def scenario_network_def not_visible_def
      get_state_def observation_def py_div_def)

subsection \<open>Leader not visible\<close>

text \<open>
  C2, as stated, fails: with no visible leader the code substitutes the maximal speed for
  the leader's speed, so the second component is \<open>(max_speed - v)/max_speed\<close>. For an
  agent alone on the road at speed 10 under a maximal speed of 30 it is \<open>2/3\<close>, not 0.
\<close>

theorem lead_speed_feature_counterexample:
  "''A'' \<in> set (get_rl_ids (vehicle lone_env)) \<and>
   not_visible (get_leader (vehicle lone_env) ''A'') \<and>
   get_state lone_env = Inr [''A'' \<mapsto> [1 / 3, 2 / 3, 1, 1 / 3, 1]] \<and>
   [1 / 3, 2 / 3, 1, 1 / 3, 1 :: real] ! 1 \<noteq> 0"
  by (simp add: lone_env_def lone_vehicle_def scenario_network_def not_visible_def
      get_state_def observation_def py_div_def)

text \<open>
  C2, amended. For every agent whose leader id is the empty string or None, in any
  mapping the base \<^verbatim>\<open>get_state\<close> returns, the second component is
  \<open>(max_speed - v)/max_speed = 1 - v/max_speed\<close>, where \<open>v\<close> is the agent's own speed, and
  the third component is 1; neither depends on any other vehicle.
\<close>

theorem no_leader_features:
  "get_state e = Inr obs \<and> rl_id \<in> set (get_rl_ids (vehicle e)) \<and>
   not_visible (get_leader (vehicle e) rl_id) \<longrightarrow>
     max_speed (network e) \<noteq> 0 \<and> length_net (network e) \<noteq> 0 \<and>
     (\<exists>ob. obs rl_id = Some ob \<and> length ob = 5 \<and>
        ob ! 1 = (max_speed (network e) - get_speed (vehicle e) rl_id) / max_speed (network e) \<and>
        ob ! 1 = 1 - get_speed (vehicle e) rl_id / max_speed (network e) \<and>
        ob ! 2 = 1)"
proof
  assume h: "get_state e = Inr obs \<and> rl_id \<in> set (get_rl_ids (vehicle e)) \<and>
   not_visible (get_leader (vehicle e) rl_id)"
  then have ne: "get_rl_ids (vehicle e) \<noteq> []" by auto
  with h have nz: "max_speed (network e) \<noteq> 0" "length_net (network e) \<noteq> 0"
    by (auto simp: get_state_eq split: if_splits)
  from h ne nz have ob: "obs rl_id = Some (spec_base_features e rl_id)"
    by (auto simp: get_state_eq)
  from h have lead: "spec_lead e rl_id = (max_speed (network e), length_net (network e))"
    by (auto simp: spec_lead_def not_visible_iff)
  obtain fs fh where f: "spec_follow e rl_id = (fs, fh)" by (cases "spec_follow e rl_id")
  have feats: "spec_base_features e rl_id =
     [get_speed (vehicle e) rl_id / max_speed (network e),
      (max_speed (network e) - get_speed (vehicle e) rl_id) / max_speed (network e),
      length_net (network e) / length_net (network e),
      (get_speed (vehicle e) rl_id - fs) / max_speed (network e),
      fh / length_net (network e)]"
    by (simp add: spec_base_features_def lead f Let_def)
  show "max_speed (network e) \<noteq> 0 \<and> length_net (network e) \<noteq> 0 \<and>
     (\<exists>ob. obs rl_id = Some ob \<and> length ob = 5 \<and>
        ob ! 1 = (max_speed (network e) - get_speed (vehicle e) rl_id) / max_speed (network e) \<and>
        ob ! 1 = 1 - get_speed (vehicle e) rl_id / max_speed (network e) \<and>
        ob ! 2 = 1)"
    using nz ob feats by (simp add: diff_divide_distrib)
qed

theorem no_leader_features_witness:
  "get_state lone_env = Inr [''A'' \<mapsto> [1 / 3, 2 / 3, 1, 1 / 3, 1]] \<and>
   ''A'' \<in> set (get_rl_ids (vehicle lone_env)) \<and>
   not_visible (get_leader (vehicle lone_env) ''A'') \<and>
   max_speed (network lone_env) = 30 \<and> get_speed (vehicle lone_env) ''A'' = 10 \<and>
   [1 / 3, 2 / 3, 1, 1 / 3, 1 :: real] ! 1 = (30 - 10) / 30 \<and>
   [1 / 3, 2 / 3, 1, 1 / 3, 1 :: real] ! 2 = 1"
  using no_leader_features [of lone_env "[''A'' \<mapsto> [1 / 3, 2 / 3, 1, 1 / 3, 1]]" "''A''"]
  by (simp add: lone_env_def lone_vehicle_def scenario_network_def not_visible_def
      get_state_def observation_def py_div_def)

subsection \<open>Rewards\<close>

lemma reward_agent_fail:
  "\<not> evaluate e \<Longrightarrow> reward_agent e (Some True) rl_id = Inr 0"
  by (simp add: reward_agent_def kwargs_fail_def)

lemma reward_agent_no_fail:
  "\<not> evaluate e \<Longrightarrow>
   reward_agent e (Some False) rl_id = Inr (max (desired_velocity e False) 0)"
  by (simp add: reward_agent_def kwargs_fail_def Let_def)

lemma for_each_agent_const:
  "for_each_agent (\<lambda>rl_id. Inr c) ids Map.empty =
     Inr (\<lambda>rl_id. if rl_id \<in> set ids then Some c else None)"
  using for_each_agent_value [of ids "\<lambda>rl_id. Inr c" "\<lambda>rl_id. c" Map.empty] by simp

lemma backward_pass_no_prev:
  "prev_edge (network e) edge lane = [] \<Longrightarrow> 0 < depth \<Longrightarrow>
   veh_edge_lane_backward_pass depth e edge lane junctions = Inr []"
  by (cases depth) simp_all

text \<open>
  C3 does not hold of the code. \<^verbatim>\<open>_compute_avgspeed_agent\<close> reads the reference
  position with \<^verbatim>\<open>get_position(edge)\<close>, the position of a vehicle named like the edge,
  instead of the agent's. In the concrete step the simulator answers \<open>-1001\<close> for that
  name, no vehicle of the edge is at or behind it, and the agent's reward is 0; the
  vehicles at or behind the agent are the agent itself, whose speed 10 over the speed
  limit 30 gives \<open>1/3\<close>.
\<close>

theorem local_reward_position_slip:
  "compute_reward_local 1000 scenario_env (Some [(''A'', [0])]) (Some False) =
     Inr [''A'' \<mapsto> 0] \<and>
   spec_behind_or_at scenario_env ''A'' = [''A''] \<and>
   spec_local_reward 1000 scenario_env ''A'' = Inr (1 / 3)"
  by (simp add: scenario_env_def scenario_vehicle_def scenario_network_def
      compute_reward_local_def compute_avgspeednormalized_agent_def
      compute_avgspeed_agent_def div_number_def backward_pass_no_prev kwargs_fail_def
      spec_local_reward_def spec_behind_or_at_def py_div_def)

text \<open>
  C4. With evaluation mode off and the failure flag set, the base variant rewards every
  agent with exactly 0. The negative-constant variants reward every agent with \<open>-0.1\<close>
  whatever the keyword arguments are. The collaborative variants return the same result
  for both values of the failure flag, and indeed for any keyword arguments.
\<close>

theorem failure_flag_rewards:
  "(\<not> evaluate e \<longrightarrow>
      compute_reward e (Some acts) (Some True) =
        Inr (\<lambda>rl_id. if rl_id \<in> set (get_rl_ids (vehicle e)) then Some 0 else None)) \<and>
   compute_reward_negative e (Some acts) kw =
     Inr (\<lambda>rl_id. if rl_id \<in> set (get_rl_ids (vehicle e)) then Some (- (1 / 10)) else None) \<and>
   compute_reward_merge_negative e (Some acts) kw =
     Inr (\<lambda>rl_id. if rl_id \<in> set (get_rl_ids (vehicle e)) then Some (- (1 / 10)) else None) \<and>
   compute_reward_collaborate e a (Some True) = compute_reward_collaborate e a (Some False) \<and>
   compute_reward_collaborate e a kw = compute_reward_collaborate e a kw' \<and>
   compute_reward_merge_collaborate e a (Some True) =
     compute_reward_merge_collaborate e a (Some False) \<and>
   compute_reward_merge_collaborate e a kw = compute_reward_merge_collaborate e a kw'"
proof -
  have "compute_reward e (Some acts) (Some True) =
        Inr (\<lambda>rl_id. if rl_id \<in> set (get_rl_ids (vehicle e)) then Some 0 else None)"
    if "\<not> evaluate e"
  proof -
    have "for_each_agent (reward_agent e (Some True)) (get_rl_ids (vehicle e)) Map.empty =
        Inr (\<lambda>rl_id. if rl_id \<in> set (get_rl_ids (vehicle e)) then Some 0 else Map.empty rl_id)"
      by (rule for_each_agent_value) (simp add: reward_agent_fail that)
    then show ?thesis by (simp add: compute_reward_def)
  qed
  moreover have "compute_reward_negative e (Some acts) kw =
     Inr (\<lambda>rl_id. if rl_id \<in> set (get_rl_ids (vehicle e)) then Some (- (1 / 10)) else None)"
    by (simp add: compute_reward_negative_def for_each_agent_const)
  moreover have "compute_reward_merge_negative e (Some acts) kw =
     Inr (\<lambda>rl_id. if rl_id \<in> set (get_rl_ids (vehicle e)) then Some (- (1 / 10)) else None)"
    by (simp add: compute_reward_merge_negative_def for_each_agent_const)
  moreover have "compute_reward_collaborate e a k1 = compute_reward_collaborate e a k2" for k1 k2
    by (simp add: compute_reward_collaborate_def)
  moreover have "compute_reward_merge_collaborate e a k1 = compute_reward_merge_collaborate e a k2"
    for k1 k2
    by (simp add: compute_reward_merge_collaborate_def)
  ultimately show ?thesis by blast
qed

theorem failure_flag_rewards_witness:
  "\<not> evaluate scenario_env \<and>
   compute_reward scenario_env (Some [(''A'', [0])]) (Some True) = Inr [''A'' \<mapsto> 0] \<and>
   compute_reward_negative scenario_env (Some [(''A'', [0])]) (Some True) =
     Inr [''A'' \<mapsto> - (1 / 10)]"
  using failure_flag_rewards [of scenario_env "[(''A'', [0])]" "Some True"]
  by (simp add: scenario_env_def scenario_vehicle_def compute_reward_def
      compute_reward_negative_def reward_agent_def kwargs_fail_def)

text \<open>
  C6. With evaluation mode off and the failure flag false, the base variant returns a
  reward for every agent, and each reward is at least 0.
\<close>

theorem base_reward_nonnegative:
  "\<not> evaluate e \<longrightarrow>
     (\<exists>rewards. compute_reward e (Some acts) (Some False) = Inr rewards \<and>
        (\<forall>rl_id \<in> set (get_rl_ids (vehicle e)). \<exists>r. rewards rl_id = Some r \<and> 0 \<le> r))"
proof
  assume ne: "\<not> evaluate e"
  have "for_each_agent (reward_agent e (Some False)) (get_rl_ids (vehicle e)) Map.empty =
        Inr (\<lambda>rl_id. if rl_id \<in> set (get_rl_ids (vehicle e))
                       then Some (max (desired_velocity e False) 0) else Map.empty rl_id)"
    by (rule for_each_agent_value) (simp add: reward_agent_no_fail ne)
  then show "\<exists>rewards. compute_reward e (Some acts) (Some False) = Inr rewards \<and>
        (\<forall>rl_id \<in> set (get_rl_ids (vehicle e)). \<exists>r. rewards rl_id = Some r \<and> 0 \<le> r)"
    by (simp add: compute_reward_def)
qed

theorem base_reward_nonnegative_witness:
  "\<not> evaluate scenario_env \<and>
   compute_reward scenario_env (Some [(''A'', [0])]) (Some False) = Inr [''A'' \<mapsto> 2 / 5] \<and>
   (0::real) \<le> 2 / 5"
  using base_reward_nonnegative [of scenario_env "[(''A'', [0])]"]
  by (simp add: scenario_env_def scenario_vehicle_def compute_reward_def
      reward_agent_def kwargs_fail_def not_visible_def)

subsection \<open>The merge-aware observation\<close>

lemma in_box_iff: "in_box x \<longleftrightarrow> - 1 \<le> x \<and> x \<le> 1"
  by (simp add: in_box_def observation_space_merge_def)

lemma clip_in_box: "in_box (clip x (- 1) 1)"
  by (simp add: clip_def in_box_iff)

lemma observation_merge_returns:
  "observation_merge e (max_speed (network e)) (length_net (network e)) md rl_id = Inr ob \<Longrightarrow>
   \<exists>d. ob = spec_base_features e rl_id @ [clip d (- 1) 1, clip md (- 1) 1]"
  by (cases "get_leader (vehicle e) rl_id"; cases "get_follower (vehicle e) rl_id";
      cases "total_edgestarts_dict (network e) ''center''")
     (auto simp: observation_merge_def spec_base_features_def spec_lead_def spec_follow_def
        not_visible_iff py_div_def dict_get_def Let_def split: if_splits)

lemma length_spec_base_features: "length (spec_base_features e rl_id) = 5"
  by (cases "spec_lead e rl_id"; cases "spec_follow e rl_id")
     (simp add: spec_base_features_def Let_def)

lemma nominal_in_box:
  assumes "nominal e rl_id"
  shows "list_all in_box (spec_base_features e rl_id)"
proof -
  obtain ls lh where l: "spec_lead e rl_id = (ls, lh)" by (cases "spec_lead e rl_id")
  obtain fs fh where f: "spec_follow e rl_id = (fs, fh)" by (cases "spec_follow e rl_id")
  from assms l f show ?thesis
    by (simp add: nominal_def spec_base_features_def in_box_iff Let_def
        pos_le_divide_eq pos_divide_le_eq)
qed

text \<open>
  What \<^verbatim>\<open>get_state\<close> of the merge-aware variant does establish: every vector has seven
  components, the five base features followed by the two merge features; the two merge
  features are clipped into the declared box; and the five base features lie in it when
  the agent's telemetry is nominal.
\<close>

lemma merge_features_clipped:
  "get_state_merge e = Inr obs \<and> rl_id \<in> set (get_rl_ids (vehicle e)) \<longrightarrow>
     (\<exists>ob. obs rl_id = Some ob \<and> length ob = 7 \<and>
        take 5 ob = spec_base_features e rl_id \<and>
        in_box (ob ! 5) \<and> in_box (ob ! 6) \<and>
        (nominal e rl_id \<longrightarrow> list_all in_box ob))"
proof
  assume h: "get_state_merge e = Inr obs \<and> rl_id \<in> set (get_rl_ids (vehicle e))"
  then obtain md where
    loop: "for_each_agent (observation_merge e (max_speed (network e)) (length_net (network e)) md)
             (get_rl_ids (vehicle e)) Map.empty = Inr obs"
    by (cases "merge_distance e") (auto simp: get_state_merge_def)
  from for_each_agent_lookup [OF loop, of rl_id] h obtain ob where
    ob: "observation_merge e (max_speed (network e)) (length_net (network e)) md rl_id = Inr ob"
    and look: "obs rl_id = Some ob"
    by auto
  from observation_merge_returns [OF ob] obtain d where
    form: "ob = spec_base_features e rl_id @ [clip d (- 1) 1, clip md (- 1) 1]" ..
  have five: "length (spec_base_features e rl_id) = 5"
    by (rule length_spec_base_features)
  have "length ob = 7" "take 5 ob = spec_base_features e rl_id"
    "in_box (ob ! 5)" "in_box (ob ! 6)"
    by (simp_all add: form five nth_append clip_in_box)
  moreover have "list_all in_box ob" if "nominal e rl_id"
    using nominal_in_box [OF that] by (simp add: form clip_in_box)
  ultimately show "\<exists>ob. obs rl_id = Some ob \<and> length ob = 7 \<and>
        take 5 ob = spec_base_features e rl_id \<and>
        in_box (ob ! 5) \<and> in_box (ob ! 6) \<and>
        (nominal e rl_id \<longrightarrow> list_all in_box ob)"
    using look by simp
qed

text \<open>
  C5 does not hold of the code. The class declares \<^verbatim>\<open>Box(low=-1, high=1, shape=(7, ))\<close>
  as its observation space and clips the two merge features into it, but leaves the five
  base features as they are. For an agent driving at 36 under a maximal speed of 30
  \<^verbatim>\<open>get_state\<close> returns a vector whose first component is \<open>6/5\<close>, outside the box.
\<close>

theorem merge_observation_outside_box:
  "observation_space_merge = (- 1, 1, 7) \<and>
   get_state_merge fast_env =
     Inr [''A'' \<mapsto> [6 / 5, - (1 / 5), 1, 6 / 5, 1, - (1 / 6), 1]] \<and>
   \<not> in_box ([6 / 5, - (1 / 5), 1, 6 / 5, 1, - (1 / 6), 1] ! 0) \<and>
   in_box ([6 / 5, - (1 / 5), 1, 6 / 5, 1, - (1 / 6), 1] ! 5) \<and>
   in_box ([6 / 5, - (1 / 5), 1, 6 / 5, 1, - (1 / 6), 1] ! 6)"
  by (simp add: fast_env_def lone_vehicle_def scenario_network_def not_visible_def
      get_state_merge_def merge_distance_def observation_merge_def dict_get_def
      py_div_def clip_def in_box_iff observation_space_merge_def)

subsection \<open>Warm-up steps and steps without agents\<close>

lemma dict_get_simps:
  "d key = None \<Longrightarrow> dict_get d key = Inl (KeyError key)"
  "d key = Some v \<Longrightarrow> dict_get d key = Inr v"
  by (simp_all add: dict_get_def)

lemma merge_distance_returns:
  "(\<exists>md. merge_distance e = Inr md) \<longleftrightarrow>
     total_edgestarts_dict (network e) ''bottom'' \<noteq> None \<and>
     (get_ids_by_edge (vehicle e) ''bottom'' = [] \<or> edge_length (network e) ''bottom'' \<noteq> 0)"
  by (cases "total_edgestarts_dict (network e) ''bottom''")
     (auto simp: merge_distance_def dict_get_def py_div_def Let_def)

lemma get_state_merge_no_agents:
  "get_rl_ids (vehicle e) = [] \<Longrightarrow>
   get_state_merge e = Inr Map.empty \<longleftrightarrow> (\<exists>md. merge_distance e = Inr md)"
  by (cases "merge_distance e") (simp_all add: get_state_merge_def)

text \<open>
  C7. In every variant \<^verbatim>\<open>compute_reward\<close> with a None action argument returns the empty
  mapping and raises nothing. With no agent present \<^verbatim>\<open>get_state\<close> returns the empty
  mapping and raises nothing: the base encoder on any network, the merge-aware encoder
  on a network that has the edge \<open>bottom\<close> its code names.
\<close>

theorem warmup_and_no_agents:
  "compute_reward e None kw = Inr Map.empty \<and>
   compute_reward_local depth e None kw = Inr Map.empty \<and>
   compute_reward_negative e None kw = Inr Map.empty \<and>
   compute_reward_collaborate e None kw = Inr Map.empty \<and>
   compute_reward_merge_negative e None kw = Inr Map.empty \<and>
   compute_reward_merge_collaborate e None kw = Inr Map.empty \<and>
   (get_rl_ids (vehicle e) = [] \<longrightarrow> get_state e = Inr Map.empty) \<and>
   (get_rl_ids (vehicle e) = [] \<and> has_bottom_edge e \<longrightarrow>
      get_state_merge e = Inr Map.empty)"
  by (simp add: compute_reward_def compute_reward_local_def compute_reward_negative_def
      compute_reward_collaborate_def compute_reward_merge_negative_def
      compute_reward_merge_collaborate_def get_state_eq get_state_merge_no_agents
      merge_distance_returns has_bottom_edge_def)

theorem warmup_and_no_agents_witness:
  "get_rl_ids (vehicle merge_env_idle) = [] \<and>
   has_bottom_edge merge_env_idle \<and>
   get_ids_by_edge (vehicle merge_env_idle) ''bottom'' = [''H''] \<and>
   get_state merge_env_idle = Inr Map.empty \<and>
   get_state_merge merge_env_idle = Inr Map.empty \<and>
   merge_distance merge_env_idle = Inr (3 / 4)"
  using warmup_and_no_agents [of merge_env_idle]
  by (simp add: merge_env_idle_def scenario_network_def no_agent_vehicle_def
      has_bottom_edge_def merge_distance_def dict_get_def py_div_def)

subsection \<open>Keys of the returned mappings\<close>

text \<open>
  C8. Every mapping returned by \<^verbatim>\<open>get_state\<close> (base or merge-aware) and by
  \<^verbatim>\<open>compute_reward\<close> with an action argument other than None (in each of the six
  variants) has exactly the ids of \<^verbatim>\<open>get_rl_ids\<close> as its keys. The constant and the
  collaborative variants always return.
\<close>

theorem keyed_by_rl_ids:
  "(get_state e = Inr obs \<longrightarrow> dom obs = set (get_rl_ids (vehicle e))) \<and>
   (get_state_merge e = Inr obs' \<longrightarrow> dom obs' = set (get_rl_ids (vehicle e))) \<and>
   (compute_reward e (Some acts) kw = Inr r \<longrightarrow> dom r = set (get_rl_ids (vehicle e))) \<and>
   (compute_reward_local depth e (Some acts) kw = Inr r' \<longrightarrow>
      dom r' = set (get_rl_ids (vehicle e))) \<and>
   (\<exists>rn. compute_reward_negative e (Some acts) kw = Inr rn \<and>
      dom rn = set (get_rl_ids (vehicle e))) \<and>
   (\<exists>rc. compute_reward_collaborate e (Some acts) kw = Inr rc \<and>
      dom rc = set (get_rl_ids (vehicle e))) \<and>
   (\<exists>rn. compute_reward_merge_negative e (Some acts) kw = Inr rn \<and>
      dom rn = set (get_rl_ids (vehicle e))) \<and>
   (\<exists>rc. compute_reward_merge_collaborate e (Some acts) kw = Inr rc \<and>
      dom rc = set (get_rl_ids (vehicle e)))"
proof -
  have "dom obs = set (get_rl_ids (vehicle e))" if "get_state e = Inr obs"
    using that for_each_agent_dom [of _ "get_rl_ids (vehicle e)" Map.empty obs]
    by (simp add: get_state_def)
  moreover have "dom obs' = set (get_rl_ids (vehicle e))" if "get_state_merge e = Inr obs'"
    using that for_each_agent_dom [of _ "get_rl_ids (vehicle e)" Map.empty obs']
    by (cases "merge_distance e") (simp_all add: get_state_merge_def)
  moreover have "dom r = set (get_rl_ids (vehicle e))"
    if "compute_reward e (Some acts) kw = Inr r"
    using that for_each_agent_dom [of _ "get_rl_ids (vehicle e)" Map.empty r]
    by (simp add: compute_reward_def)
  moreover have "dom r' = set (get_rl_ids (vehicle e))"
    if "compute_reward_local depth e (Some acts) kw = Inr r'"
    using that for_each_agent_dom [of _ "get_rl_ids (vehicle e)" Map.empty r']
    by (simp add: compute_reward_local_def)
  moreover have "dom (\<lambda>rl_id. if rl_id \<in> set (get_rl_ids (vehicle e)) then Some c else None) =
      set (get_rl_ids (vehicle e))" for c :: real
    by (auto simp: dom_def)
  ultimately show ?thesis
    by (simp add: compute_reward_negative_def compute_reward_collaborate_def
        compute_reward_merge_negative_def compute_reward_merge_collaborate_def
        for_each_agent_const)
qed

theorem keyed_by_rl_ids_witness:
  "get_state scenario_env = Inr [''A'' \<mapsto> [1 / 3, 1 / 6, 1 / 20, 1 / 3, 1]] \<and>
   get_state_merge scenario_env =
     Inr [''A'' \<mapsto> [1 / 3, 1 / 6, 1 / 20, 1 / 3, 1, - (1 / 6), 1]] \<and>
   compute_reward scenario_env (Some [(''A'', [0])]) (Some False) = Inr [''A'' \<mapsto> 2 / 5] \<and>
   compute_reward_local 1000 scenario_env (Some [(''A'', [0])]) (Some False) =
     Inr [''A'' \<mapsto> 0] \<and>
   get_rl_ids (vehicle scenario_env) = [''A''] \<and>
   dom [''A'' \<mapsto> [1 / 3, 1 / 6, 1 / 20, 1 / 3, 1 :: real]] = {''A''} \<and>
   dom [''A'' \<mapsto> [1 / 3, 1 / 6, 1 / 20, 1 / 3, 1, - (1 / 6), 1 :: real]] = {''A''} \<and>
   dom [''A'' \<mapsto> 2 / 5 :: real] = {''A''} \<and>
   dom [''A'' \<mapsto> 0 :: real] = {''A''}"
  using keyed_by_rl_ids [of scenario_env "[''A'' \<mapsto> [1 / 3, 1 / 6, 1 / 20, 1 / 3, 1]]"
      "[''A'' \<mapsto> [1 / 3, 1 / 6, 1 / 20, 1 / 3, 1, - (1 / 6), 1]]" "[(''A'', [0])]"
      "Some False" "[''A'' \<mapsto> 2 / 5]" 1000 "[''A'' \<mapsto> 0]"]
  by (simp add: scenario_env_def scenario_vehicle_def scenario_network_def not_visible_def
      get_state_def observation_def py_div_def get_state_merge_def merge_distance_def
      observation_merge_def dict_get_def clip_def compute_reward_def reward_agent_def
      kwargs_fail_def compute_reward_local_def compute_avgspeednormalized_agent_def
      compute_avgspeed_agent_def div_number_def backward_pass_no_prev)

subsection \<open>Construction\<close>

lemma check_params_ok:
  "(\<forall>p \<in> set ps. ap p \<noteq> None) \<Longrightarrow> check_params ps ap = Inr ()"
  by (induction ps) auto

lemma check_params_missing:
  "\<exists>p \<in> set ps. ap p = None \<Longrightarrow>
   \<exists>p \<in> set ps. ap p = None \<and> check_params ps ap = Inl (KeyError (not_supplied p))"
  by (induction ps) auto

text \<open>
  C9. If one of \<open>max_accel\<close>, \<open>max_decel\<close>, \<open>target_velocity\<close> is missing from the
  additional parameters, construction ends with a \<^verbatim>\<open>KeyError\<close> naming a missing key,
  whatever the parent constructor would have done, so no environment is produced. If all
  three are present the check raises nothing and the outcome is the parent
  constructor's.
\<close>

theorem init_requires_keys:
  "map fst ADDITIONAL_ENV_PARAMS = [''max_accel'', ''max_decel'', ''target_velocity''] \<and>
   ((\<exists>p \<in> set [''max_accel'', ''max_decel'', ''target_velocity'']. additional_params p = None) \<longrightarrow>
      (\<exists>p. additional_params p = None \<and>
           init additional_params super_init = Inl (KeyError (not_supplied p)))) \<and>
   ((\<forall>p \<in> set [''max_accel'', ''max_decel'', ''target_velocity'']. additional_params p \<noteq> None) \<longrightarrow>
      check_params (map fst ADDITIONAL_ENV_PARAMS) additional_params = Inr () \<and>
      init additional_params super_init = super_init)"
proof (intro conjI impI)
  show keys: "map fst ADDITIONAL_ENV_PARAMS = [''max_accel'', ''max_decel'', ''target_velocity'']"
    by (simp add: ADDITIONAL_ENV_PARAMS_def)
  {
    assume "\<exists>p \<in> set [''max_accel'', ''max_decel'', ''target_velocity'']. additional_params p = None"
    from check_params_missing [OF this]
    show "\<exists>p. additional_params p = None \<and>
           init additional_params super_init = Inl (KeyError (not_supplied p))"
      unfolding init_def keys by (metis bind_err_simps(1))
  }
  {
    assume "\<forall>p \<in> set [''max_accel'', ''max_decel'', ''target_velocity'']. additional_params p \<noteq> None"
    from check_params_ok [OF this]
    show "check_params (map fst ADDITIONAL_ENV_PARAMS) additional_params = Inr ()"
      and "init additional_params super_init = super_init"
      unfolding init_def keys by simp_all
  }
qed

theorem init_requires_keys_witness:
  "[''max_accel'' \<mapsto> 3 :: real, ''max_decel'' \<mapsto> 3] ''target_velocity'' = None \<and>
   init [''max_accel'' \<mapsto> 3 :: real, ''max_decel'' \<mapsto> 3] (Inr (0 :: nat)) =
     Inl (KeyError (not_supplied ''target_velocity'')) \<and>
   init [''max_accel'' \<mapsto> 3 :: real, ''max_decel'' \<mapsto> 3, ''target_velocity'' \<mapsto> 25]
     (Inr (0 :: nat)) = Inr 0"
  using init_requires_keys [of "[''max_accel'' \<mapsto> 3 :: real, ''max_decel'' \<mapsto> 3]" "Inr (0 :: nat)"]
    init_requires_keys [of "[''max_accel'' \<mapsto> 3 :: real, ''max_decel'' \<mapsto> 3, ''target_velocity'' \<mapsto> 25]"
      "Inr (0 :: nat)"]
  by (simp add: init_def ADDITIONAL_ENV_PARAMS_def)

subsection \<open>Action dispatcher\<close>

text \<open>
  C10. An empty, non-None action mapping is falsy, so the dispatcher does what it does
  in the warm-up case: it sends no acceleration command and raises nothing. A mapping
  with one entry sends that agent's first action component.
\<close>

theorem apply_rl_actions_empty_noop:
  "\<not> truthy (Some []) \<and> \<not> truthy None \<and>
   apply_rl_actions (Some []) sent = (sent, None) \<and>
   apply_rl_actions (Some []) sent = apply_rl_actions None sent \<and>
   apply_rl_actions (Some [(rl_id, accel # lane_change)]) sent =
     (sent @ [(rl_id, accel)], None)"
  by (simp add: apply_rl_actions_def truthy_def)

end
